theory Spec2Isabelle
  imports Main
begin

section \<open>The site configuration of astro.config.mjs\<close>

text \<open>
  The repository configures a documentation-site generator: its only program text is the
  object literal handed to \<open>starlight\<close> inside \<open>defineConfig\<close>. A sidebar entry of
  that literal is either \<open>{ label, slug }\<close> (a link to one document) or
  \<open>{ label, items }\<close> (a group holding further entries, in order).
\<close>

datatype NavEntry =
    is_Link: Link (label: string) (slug: string)
  | is_Group: Group (label: string) (items: "NavEntry list")

record SiteConfig =
  title :: string
  social :: "(string \<times> string) list"
  sidebar :: "NavEntry list"

text \<open>Lines 7 to 33 of astro.config.mjs, entry by entry and in the order written.\<close>

definition site_config :: SiteConfig where
  "site_config = \<lparr>
     title = ''Ulauncher'',
     social = [(''github'', ''https://github.com/Ulauncher/Ulauncher'')],
     sidebar = [
       Group ''Color Themes'' [
         Link ''Overview'' ''themes/themes'',
         Link ''Creating custom themes'' ''themes/custom'',
         Link ''Migrating themes'' ''themes/migrate''
       ],
       Group ''Extension Development'' [
         Link ''Overview'' ''extensions/overview'',
         Link ''Development Tutorial'' ''extensions/tutorial'',
         Link ''Testing & Logging'' ''extensions/debugging'',
         Link ''Examples'' ''extensions/examples'',
         Link ''Migrating extensions'' ''extensions/migration''
       ]
     ]
   \<rparr>"

section \<open>Observations on a navigation tree\<close>

text \<open>Nesting depth of an entry: a link has depth 0, a group is one deeper than its
  deepest child (an empty group has depth 1).\<close>

fun nav_depth :: "NavEntry \<Rightarrow> nat" where
  "nav_depth (Link l s) = 0"
| "nav_depth (Group l es) = Suc (fold max (map nav_depth es) 0)"

text \<open>A root entry is flat when it is a group all of whose children are links.\<close>

fun flat_group :: "NavEntry \<Rightarrow> bool" where
  "flat_group (Link l s) = False"
| "flat_group (Group l es) = list_all is_Link es"

text \<open>The slugs of all links below an entry, left to right.\<close>

fun link_slugs :: "NavEntry \<Rightarrow> string list" where
  "link_slugs (Link l s) = [s]"
| "link_slugs (Group l es) = concat (map link_slugs es)"

definition sidebar_slugs :: "SiteConfig \<Rightarrow> string list" where
  "sidebar_slugs cfg = concat (map link_slugs (sidebar cfg))"

text \<open>The labels of the direct children of an entry (a link has none).\<close>

fun child_labels :: "NavEntry \<Rightarrow> string list" where
  "child_labels (Link l s) = []"
| "child_labels (Group l es) = map label es"

text \<open>A chain of \<open>n\<close> groups nested in one another around a single link.\<close>

fun nested :: "nat \<Rightarrow> NavEntry" where
  "nested 0 = Link ''leaf'' ''leaf''"
| "nested (Suc n) = Group ''group'' [nested n]"

section \<open>Validation of the sidebar\<close>

text \<open>
  Modelled from the spec: the error taxonomy of the build (section 7). The errors are
  raised by the site generator, whose code is not part of the repository; the spec names
  a duplicate slug among the documents, a sidebar slug without a document, and a missing
  asset, and no error about labels.
\<close>

datatype BuildError =
    DuplicateSlug string
  | UnresolvedSlug string
  | MissingAsset string

text \<open>
  Modelled from the spec: \<open>validate(tree, store)\<close> of section 4.2, which belongs to the
  site generator and is missing from the repository. It walks the declared tree, checks
  the slug of every link against the store's \<open>resolve(slug) -> Document | NotFound\<close>
  (here the function \<open>store\<close>, \<open>None\<close> for NotFound), and collects every unresolved
  slug in one pass; the empty list is the answer OK.
\<close>

fun validate_entry :: "NavEntry \<Rightarrow> (string \<Rightarrow> 'd option) \<Rightarrow> BuildError list" where
  "validate_entry (Link l s) store =
     (case store s of None \<Rightarrow> [UnresolvedSlug s] | Some d \<Rightarrow> [])"
| "validate_entry (Group l es) store = concat (map (\<lambda>e. validate_entry e store) es)"

definition validate :: "NavEntry list \<Rightarrow> (string \<Rightarrow> 'd option) \<Rightarrow> BuildError list" where
  "validate tree store = concat (map (\<lambda>e. validate_entry e store) tree)"

text \<open>The same entry with every label rewritten by \<open>f\<close>; slugs and shape are kept.\<close>

fun relabel :: "(string \<Rightarrow> string) \<Rightarrow> NavEntry \<Rightarrow> NavEntry" where
  "relabel f (Link l s) = Link (f l) s"
| "relabel f (Group l es) = Group (f l) (map (relabel f) es)"

section \<open>Shared facts\<close>

lemma nav_depth_nested: "nav_depth (nested n) = n"
  by (induction n) simp_all

lemma sidebar_slugs_site_config:
  "sidebar_slugs site_config =
     [''themes/themes'', ''themes/custom'', ''themes/migrate'',
      ''extensions/overview'', ''extensions/tutorial'', ''extensions/debugging'',
      ''extensions/examples'', ''extensions/migration'']"
  by (simp add: sidebar_slugs_def site_config_def)

text \<open>Validation does not look at labels: rewriting them changes no reported error.\<close>

lemma validate_entry_relabel: "validate_entry (relabel f e) store = validate_entry e store"
proof (induction e)
  case (Link l s)
  show ?case by simp
next
  case (Group l es)
  then have "map (\<lambda>e. validate_entry (relabel f e) store) es
      = map (\<lambda>e. validate_entry e store) es"
    by (simp cong: map_cong)
  then have "concat (map (\<lambda>e. validate_entry (relabel f e) store) es)
      = concat (map (\<lambda>e. validate_entry e store) es)"
    by (rule arg_cong)
  then show ?case by (simp add: comp_def)
qed

lemma validate_relabel: "validate (map (relabel f) tree) store = validate tree store"
  by (simp add: validate_def comp_def validate_entry_relabel)

text \<open>What validation reports is the unresolved slugs, in declaration order.\<close>

lemma validate_entry_unresolved:
  "validate_entry e store = map UnresolvedSlug (filter (\<lambda>s. store s = None) (link_slugs e))"
proof (induction e)
  case (Link l s)
  show ?case by (simp split: option.split)
next
  case (Group l es)
  then have "map (\<lambda>e. validate_entry e store) es
      = map (\<lambda>e. map UnresolvedSlug (filter (\<lambda>s. store s = None) (link_slugs e))) es"
    by (simp cong: map_cong)
  then have "concat (map (\<lambda>e. validate_entry e store) es)
      = concat (map (\<lambda>e. map UnresolvedSlug
          (filter (\<lambda>s. store s = None) (link_slugs e))) es)"
    by (rule arg_cong)
  then show ?case by (simp add: map_concat filter_concat comp_def)
qed

lemma validate_unresolved:
  "validate (sidebar cfg) store
     = map UnresolvedSlug (filter (\<lambda>s. store s = None) (sidebar_slugs cfg))"
  by (simp add: validate_def sidebar_slugs_def validate_entry_unresolved
      map_concat filter_concat comp_def)

section \<open>Shape of the declared sidebar\<close>

text \<open>
  C8. In this configuration the navigation tree is exactly one level deep: every root
  entry of the sidebar is a group whose children are all links, so every root entry has
  nesting depth 1; the type of entries itself allows any depth.
\<close>

theorem sidebar_one_level_deep:
  "list_all flat_group (sidebar site_config)
   \<and> list_all (\<lambda>e. nav_depth e = 1) (sidebar site_config)
   \<and> (\<forall>n. \<exists>e. nav_depth e = n)"
proof -
  have "list_all flat_group (sidebar site_config)"
    by (simp add: site_config_def)
  moreover have "list_all (\<lambda>e. nav_depth e = 1) (sidebar site_config)"
    by (simp add: site_config_def)
  moreover have "\<forall>n. \<exists>e. nav_depth e = n"
    using nav_depth_nested by blast
  ultimately show ?thesis by simp
qed

section \<open>Slugs and labels of the declared sidebar\<close>

text \<open>
  C9. The slugs of the links in this configuration's sidebar are pairwise distinct: the
  eight declared slugs contain no repeat. Hence, under any lookup \<open>resolve\<close> that only
  returns a document under that document's own slug, two different links of the sidebar
  never resolve to the same document, and under any injective naming \<open>out_path\<close> of
  output files by slug they never share an output path.
\<close>

theorem sidebar_slugs_pairwise_distinct:
  fixes resolve :: "string \<Rightarrow> 'd option"
    and doc_slug :: "'d \<Rightarrow> string"
    and out_path :: "string \<Rightarrow> 'p"
  shows "distinct (sidebar_slugs site_config)
   \<and> length (sidebar_slugs site_config) = 8
   \<and> ((\<forall>s d. resolve s = Some d \<longrightarrow> doc_slug d = s) \<longrightarrow>
        (\<forall>i j d. i < 8 \<and> j < 8 \<and> i \<noteq> j
            \<and> resolve (sidebar_slugs site_config ! i) = Some d
          \<longrightarrow> resolve (sidebar_slugs site_config ! j) \<noteq> Some d))
   \<and> (inj out_path \<longrightarrow>
        (\<forall>i j. i < 8 \<and> j < 8 \<and> i \<noteq> j
          \<longrightarrow> out_path (sidebar_slugs site_config ! i)
              \<noteq> out_path (sidebar_slugs site_config ! j)))"
proof -
  let ?S = "sidebar_slugs site_config"
  have d: "distinct ?S"
    by (simp add: sidebar_slugs_site_config)
  have n: "length ?S = 8"
    by (simp add: sidebar_slugs_site_config)
  have neq: "?S ! i \<noteq> ?S ! j" if "i < 8" "j < 8" "i \<noteq> j" for i j
    using that d n by (simp add: nth_eq_iff_index_eq)
  have r: "resolve (?S ! j) \<noteq> Some x"
    if inv: "\<forall>s d. resolve s = Some d \<longrightarrow> doc_slug d = s"
      and ij: "i < 8" "j < 8" "i \<noteq> j" and ri: "resolve (?S ! i) = Some x" for i j x
  proof
    assume rj: "resolve (?S ! j) = Some x"
    from inv ri have "doc_slug x = ?S ! i" by blast
    moreover from inv rj have "doc_slug x = ?S ! j" by blast
    ultimately show False using neq [OF ij] by simp
  qed
  have p: "out_path (?S ! i) \<noteq> out_path (?S ! j)"
    if "inj out_path" "i < 8" "j < 8" "i \<noteq> j" for i j
    using that neq [of i j] by (auto dest: injD)
  from d n r p show ?thesis by blast
qed

text \<open>
  The store holding only the tutorial document (slug and front-matter title of
  src/content/docs/extensions/tutorial.md): the link at position 4 resolves to it, the
  link at position 3 does not, and the two output paths differ.
\<close>

theorem sidebar_slugs_pairwise_distinct_witness:
  "map_of [(''extensions/tutorial'', (''extensions/tutorial'', ''Extension Development Tutorial''))]
     (sidebar_slugs site_config ! 4)
     = Some (''extensions/tutorial'', ''Extension Development Tutorial'')
   \<and> map_of [(''extensions/tutorial'', (''extensions/tutorial'', ''Extension Development Tutorial''))]
     (sidebar_slugs site_config ! 3)
     \<noteq> Some (''extensions/tutorial'', ''Extension Development Tutorial'')
   \<and> CHR ''/'' # sidebar_slugs site_config ! 4 \<noteq> CHR ''/'' # sidebar_slugs site_config ! 3"
proof -
  let ?store = "map_of [(''extensions/tutorial'',
      (''extensions/tutorial'', ''Extension Development Tutorial''))]"
  have inv: "\<forall>s d. ?store s = Some d \<longrightarrow> fst d = s"
    by (auto split: if_splits)
  have i: "inj (\<lambda>s. CHR ''/'' # s)"
    by (simp add: inj_def)
  have at4: "?store (sidebar_slugs site_config ! 4)
      = Some (''extensions/tutorial'', ''Extension Development Tutorial'')"
    by (simp add: sidebar_slugs_site_config)
  note all = sidebar_slugs_pairwise_distinct [of ?store fst "\<lambda>s. CHR ''/'' # s"]
  from inv have "\<forall>i j d. i < 8 \<and> j < 8 \<and> i \<noteq> j
        \<and> ?store (sidebar_slugs site_config ! i) = Some d
      \<longrightarrow> ?store (sidebar_slugs site_config ! j) \<noteq> Some d"
    by (rule all [THEN conjunct2, THEN conjunct2, THEN conjunct1, THEN mp])
  then have "(4::nat) < 8 \<and> (3::nat) < 8 \<and> (4::nat) \<noteq> 3
        \<and> ?store (sidebar_slugs site_config ! 4)
          = Some (''extensions/tutorial'', ''Extension Development Tutorial'')
      \<longrightarrow> ?store (sidebar_slugs site_config ! 3)
          \<noteq> Some (''extensions/tutorial'', ''Extension Development Tutorial'')"
    by (elim allE)
  with at4 have other: "?store (sidebar_slugs site_config ! 3)
      \<noteq> Some (''extensions/tutorial'', ''Extension Development Tutorial'')"
    by simp
  from i have "\<forall>i j. i < 8 \<and> j < 8 \<and> i \<noteq> j
      \<longrightarrow> CHR ''/'' # sidebar_slugs site_config ! i
          \<noteq> CHR ''/'' # sidebar_slugs site_config ! j"
    by (rule all [THEN conjunct2, THEN conjunct2, THEN conjunct2, THEN mp])
  then have "(4::nat) < 8 \<and> (3::nat) < 8 \<and> (4::nat) \<noteq> 3
      \<longrightarrow> CHR ''/'' # sidebar_slugs site_config ! 4
          \<noteq> CHR ''/'' # sidebar_slugs site_config ! 3"
    by (elim allE)
  then have paths: "CHR ''/'' # sidebar_slugs site_config ! 4
      \<noteq> CHR ''/'' # sidebar_slugs site_config ! 3"
    by simp
  from at4 other paths show ?thesis by blast
qed

text \<open>
  C10. Within each group of this configuration's sidebar the labels of the child links
  are pairwise distinct, but labels are not unique across the sidebar: the label
  Overview occurs in both groups, Color Themes and Extension Development. The
  duplication is accepted: validation of this sidebar reports unresolved slugs and
  nothing else, reports the same whatever the labels are rewritten to, and reports no
  error at all once every declared slug has a document in the store.
\<close>

theorem labels_distinct_within_groups_only:
  fixes store :: "string \<Rightarrow> 'd option" and f :: "string \<Rightarrow> string"
  shows "list_all (\<lambda>g. distinct (child_labels g)) (sidebar site_config)
   \<and> \<not> distinct (concat (map child_labels (sidebar site_config)))
   \<and> map label (sidebar site_config) = [''Color Themes'', ''Extension Development'']
   \<and> list_all (\<lambda>g. ''Overview'' \<in> set (child_labels g)) (sidebar site_config)
   \<and> validate (sidebar site_config) store
       = map UnresolvedSlug (filter (\<lambda>s. store s = None) (sidebar_slugs site_config))
   \<and> validate (map (relabel f) (sidebar site_config)) store
       = validate (sidebar site_config) store
   \<and> (list_all (\<lambda>s. store s \<noteq> None) (sidebar_slugs site_config)
        \<longrightarrow> validate (sidebar site_config) store = [])"
proof -
  have "list_all (\<lambda>g. distinct (child_labels g)) (sidebar site_config)"
    by (simp add: site_config_def)
  moreover have "\<not> distinct (concat (map child_labels (sidebar site_config)))"
    by (simp add: site_config_def)
  moreover have "map label (sidebar site_config) = [''Color Themes'', ''Extension Development'']"
    by (simp add: site_config_def)
  moreover have "list_all (\<lambda>g. ''Overview'' \<in> set (child_labels g)) (sidebar site_config)"
    by (simp add: site_config_def)
  moreover have u: "validate (sidebar site_config) store
      = map UnresolvedSlug (filter (\<lambda>s. store s = None) (sidebar_slugs site_config))"
    by (rule validate_unresolved)
  moreover have "validate (map (relabel f) (sidebar site_config)) store
      = validate (sidebar site_config) store"
    by (rule validate_relabel)
  moreover have "validate (sidebar site_config) store = []"
    if "list_all (\<lambda>s. store s \<noteq> None) (sidebar_slugs site_config)"
  proof -
    from that have "filter (\<lambda>s. store s = None) (sidebar_slugs site_config) = []"
      by (simp add: list_all_iff filter_empty_conv)
    with u show ?thesis by simp
  qed
  ultimately show ?thesis by blast
qed

text \<open>
  A store with one document under each of the eight declared slugs: every slug of the
  sidebar is present, and validation of the sidebar, duplicate label included, is OK.
\<close>

theorem labels_distinct_within_groups_only_witness:
  "list_all (\<lambda>s. map_of (map (\<lambda>s. (s, s)) (sidebar_slugs site_config)) s \<noteq> None)
     (sidebar_slugs site_config)
   \<and> validate (sidebar site_config)
       (map_of (map (\<lambda>s. (s, s)) (sidebar_slugs site_config))) = []"
proof -
  let ?store = "map_of (map (\<lambda>s. (s, s)) (sidebar_slugs site_config))"
  have present: "list_all (\<lambda>s. ?store s \<noteq> None) (sidebar_slugs site_config)"
    by (simp add: sidebar_slugs_site_config)
  note all = labels_distinct_within_groups_only [of ?store id]
  from present have "validate (sidebar site_config) ?store = []"
    by (rule all [THEN conjunct2, THEN conjunct2, THEN conjunct2, THEN conjunct2,
        THEN conjunct2, THEN conjunct2, THEN mp])
  with present show ?thesis by (rule conjI)
qed

end
